theory Spec2Isabelle
  imports Main
begin

section \<open>Python values, keyword dictionaries and errors\<close>

text \<open>
  The two modules verified here are
  \<^verbatim>\<open>expect_column_values_to_be_string_integers_increasing.py\<close> (the metric
  \<^verbatim>\<open>column_values.string_integers.increasing\<close> with its pandas and Spark
  implementations, its dependency declaration and the expectation's \<^verbatim>\<open>_validate\<close>) and
  \<^verbatim>\<open>table_column_types.py\<close> (the Spark schema flattening behind
  \<^verbatim>\<open>table.column_types\<close>).

  A string is a list of code points below 256, one \<open>char\<close> each: ASCII and the
  Latin-1 supplement. The text of an exception that a library raises is cut to its
  fixed part. A keyword dictionary is an
  association list in insertion order, read with \<open>map_of\<close>. Every \<^verbatim>\<open>raise\<close> of the
  source is an \<open>Inl\<close> result.
\<close>

datatype pyval = PyNone | PyBool bool | PyInt int | PyStr string

type_synonym kwargs = "(string \<times> pyval) list"

datatype error =
    TypeError string
  | ValueError string
  | KeyError string
  | IndexError string
  | OverflowError string
  | EngineError string

section \<open>Spark schema objects\<close>

text \<open>
  The objects that \<^verbatim>\<open>_get_spark_column_metadata\<close> can be handed. Python does not
  type the members of a \<^verbatim>\<open>StructType\<close> or the \<^verbatim>\<open>dataType\<close> of a
  \<^verbatim>\<open>StructField\<close>, so they are objects again; \<open>OtherObject\<close> is anything that is
  neither a Spark type nor a field.
\<close>

datatype pyobj =
    StructType "pyobj list"
  | StructField string pyobj
  | StringType
  | IntegerType
  | LongType
  | ArrayType pyobj
  | OtherObject string

record column_metadata =
  name :: string
  type :: pyobj

definition unrecognized :: error where
  "unrecognized = ValueError ''unrecognized field type''"

text \<open>
  \<^verbatim>\<open>_get_spark_column_metadata(field, parent_name="", include_nested=True)\<close>.
  The first argument is the truth value of the optional import \<^verbatim>\<open>sparktypes\<close>.
  The second function is the loop \<^verbatim>\<open>for child in ...: cols += ...\<close>; an exception
  in one child leaves the loop. The call of line 120 passes no \<^verbatim>\<open>include_nested\<close>,
  so the children of a \<^verbatim>\<open>StructType\<close> run with the default \<^verbatim>\<open>True\<close>.
\<close>

fun get_spark_column_metadata ::
    "bool \<Rightarrow> pyobj \<Rightarrow> string \<Rightarrow> bool \<Rightarrow> error + column_metadata list"
  and get_spark_column_metadata_children ::
    "bool \<Rightarrow> pyobj list \<Rightarrow> string \<Rightarrow> bool \<Rightarrow> error + column_metadata list"
where
  "get_spark_column_metadata sparktypes (StructType struct_fields) parent_name include_nested =
     (let parent_name = (if parent_name \<noteq> [] then parent_name @ ''.'' else parent_name) in
      if sparktypes
      then get_spark_column_metadata_children sparktypes struct_fields parent_name True
      else Inl unrecognized)"
| "get_spark_column_metadata sparktypes (StructField field_name dataType) parent_name include_nested =
     (let parent_name = (if parent_name \<noteq> [] then parent_name @ ''.'' else parent_name) in
      if sparktypes
      then
        (let field_metadata =
               \<lparr>name = (if CHR ''.'' \<in> set field_name
                        then parent_name @ ''`'' @ field_name @ ''`''
                        else parent_name @ field_name),
                type = dataType\<rparr>
         in case dataType of
              StructType child_fields \<Rightarrow>
                if include_nested \<and> sparktypes
                then (case get_spark_column_metadata_children sparktypes child_fields
                             (parent_name @ field_name) include_nested of
                        Inl e \<Rightarrow> Inl e
                      | Inr cols \<Rightarrow> Inr (field_metadata # cols))
                else Inr [field_metadata]
            | _ \<Rightarrow> Inr [field_metadata])
      else Inl unrecognized)"
| "get_spark_column_metadata sparktypes field parent_name include_nested = Inl unrecognized"
| "get_spark_column_metadata_children sparktypes [] parent_name include_nested = Inr []"
| "get_spark_column_metadata_children sparktypes (child # rest) parent_name include_nested =
     (case get_spark_column_metadata sparktypes child parent_name include_nested of
        Inl e \<Rightarrow> Inl e
      | Inr cols \<Rightarrow>
          (case get_spark_column_metadata_children sparktypes rest parent_name include_nested of
             Inl e \<Rightarrow> Inl e
           | Inr others \<Rightarrow> Inr (cols @ others)))"

text \<open>
  \<^verbatim>\<open>ColumnTypes._spark\<close>: the schema of the compute domain is flattened with the
  \<^verbatim>\<open>include_nested\<close> of the value kwargs; \<^verbatim>\<open>parent_name\<close> keeps its default.
\<close>

definition column_types_spark :: "bool \<Rightarrow> pyobj \<Rightarrow> bool \<Rightarrow> error + column_metadata list" where
  "column_types_spark sparktypes schema include_nested =
     get_spark_column_metadata sparktypes schema [] include_nested"

section \<open>The metric \<^verbatim>\<open>column_values.string_integers.increasing\<close>\<close>

subsection \<open>Strings of digits and their integer values\<close>

text \<open>
  \<^verbatim>\<open>str.isdigit\<close>: at least one character, and every character a digit. Below
  code point 256 the digits are the decimal digits \<open>0\<close> to \<open>9\<close> and the superscripts
  two, three and one (\<open>0xB2\<close>, \<open>0xB3\<close>, \<open>0xB9\<close>), which are digits without being
  decimal. \<open>decimal_digits\<close> is a non-empty run of \<open>0\<close> to \<open>9\<close>, and
  \<open>int_of_string\<close> its value.
\<close>

definition decimal_char :: "char \<Rightarrow> bool" where
  "decimal_char c = (c \<in> set ''0123456789'')"

definition digit_char :: "char \<Rightarrow> bool" where
  "digit_char c = (decimal_char c \<or> c = CHR 0xB2 \<or> c = CHR 0xB3 \<or> c = CHR 0xB9)"

definition isdigit :: "string \<Rightarrow> bool" where
  "isdigit s = (s \<noteq> [] \<and> list_all digit_char s)"

definition decimal_digits :: "string \<Rightarrow> bool" where
  "decimal_digits s = (s \<noteq> [] \<and> list_all decimal_char s)"

definition int_of_string :: "string \<Rightarrow> int" where
  "int_of_string s = foldl (\<lambda>acc c. 10 * acc + (of_char c - 48)) 0 s"

text \<open>
  \<^verbatim>\<open>int(s)\<close> for a string of digits, as CPython 3.11 and later read it: the
  leading run of decimal digits may have at most
  \<^verbatim>\<open>sys.int_info.default_max_str_digits\<close> characters, leading zeros counted, and
  the string must be such a run and nothing else; both failures are
  \<^verbatim>\<open>ValueError\<close>. Signs, blanks and underscores, which \<^verbatim>\<open>int\<close> also reads,
  occur in no string that passes \<^verbatim>\<open>isdigit\<close>, and the source converts no other.
\<close>

definition int_max_str_digits :: nat where
  "int_max_str_digits = 4300"

definition py_int :: "string \<Rightarrow> error + int" where
  "py_int s =
     (if length (takeWhile decimal_char s) > int_max_str_digits
      then Inl (ValueError ''Exceeds the limit (4300 digits) for integer string conversion'')
      else if \<not> decimal_digits s
      then Inl (ValueError ''invalid literal for int() with base 10'')
      else Inr (int_of_string s))"

definition cast_message :: string where
  "cast_message = ''Column must be a string-type capable of being cast to int.''"

subsection \<open>The pandas implementation\<close>

text \<open>
  \<^verbatim>\<open>_column.astype(int)\<close> converts the strings one after the other, each with
  \<^verbatim>\<open>int\<close> and then to the platform integer of numpy, 64 bits wide on Linux and
  macOS: a value above \<open>2^63 - 1\<close> raises \<^verbatim>\<open>OverflowError\<close>. The first string
  that fails ends the conversion. The function is reached only behind the
  \<^verbatim>\<open>isdigit\<close> gate, so its argument holds strings of digits.
  \<^verbatim>\<open>np.diff\<close> subtracts neighbours in that integer type, which wraps around.
\<close>

definition int64_max :: int where
  "int64_max = 2 ^ 63 - 1"

definition wrap64 :: "int \<Rightarrow> int" where
  "wrap64 x = (x + 2 ^ 63) mod 2 ^ 64 - 2 ^ 63"

fun astype_int :: "string list \<Rightarrow> error + int list" where
  "astype_int [] = Inr []"
| "astype_int (s # rest) =
     (case py_int s of
        Inl e \<Rightarrow> Inl e
      | Inr v \<Rightarrow>
          if v > int64_max
          then Inl (OverflowError ''Python int too large to convert to C long'')
          else (case astype_int rest of
                  Inl e \<Rightarrow> Inl e
                | Inr values \<Rightarrow> Inr (v # values)))"

definition np_diff :: "int list \<Rightarrow> int list" where
  "np_diff a = map2 (\<lambda>x y. wrap64 (y - x)) a (tl a)"

text \<open>Python truth value, and \<^verbatim>\<open>dict.get(key)\<close> with its default \<^verbatim>\<open>None\<close>.\<close>

fun truthy :: "pyval \<Rightarrow> bool" where
  "truthy PyNone = False"
| "truthy (PyBool b) = b"
| "truthy (PyInt i) = (i \<noteq> 0)"
| "truthy (PyStr s) = (s \<noteq> [])"

definition kwargs_get :: "kwargs \<Rightarrow> string \<Rightarrow> pyval" where
  "kwargs_get kwargs key = (case map_of kwargs key of None \<Rightarrow> PyNone | Some v \<Rightarrow> v)"

text \<open>
  \<^verbatim>\<open>ColumnValuesStringIntegersIncreasing._pandas(self, _column, **kwargs)\<close>. The
  column is the one the decorator hands over: the non-null values, in row order.
\<close>

definition increasing_pandas :: "string list \<Rightarrow> kwargs \<Rightarrow> error + bool list" where
  "increasing_pandas column kwargs =
     (if list_all isdigit column
      then (case astype_int column of
              Inl e \<Rightarrow> Inl e
            | Inr temp_column \<Rightarrow>
                (let series_diff = np_diff temp_column;
                     strictly = (if truthy (kwargs_get kwargs ''strictly'')
                                 then kwargs_get kwargs ''strictly'' else PyBool False)
                 in if truthy strictly
                    then Inr (map (\<lambda>d. d > 0) series_diff)
                    else Inr (map (\<lambda>d. d \<ge> 0) series_diff)))
      else Inl (TypeError cast_message))"

subsection \<open>The Spark implementation\<close>

text \<open>
  A data frame is read through its string columns: a column name gives the values in
  row order, \<open>None\<close> for SQL \<^verbatim>\<open>NULL\<close>. \<^verbatim>\<open>cast(IntegerType())\<close> yields a 32-bit
  integer: a run of the decimal digits \<open>0\<close> to \<open>9\<close>, of any length, becomes its
  value, or \<^verbatim>\<open>NULL\<close> above \<open>2^31 - 1\<close> (the engine's cast outside ANSI mode, the
  one the null check of the source is written for); what the engine makes of any other
  string (signs, blanks, decimal points, characters beyond ASCII) depends on its
  version and is the parameter \<open>other\<close>. Integer subtraction wraps around at 32 bits and
  is \<^verbatim>\<open>NULL\<close> when an operand is. \<^verbatim>\<open>F.lag\<close> over the window ordered by a constant
  is taken in row order: the value of the row before, \<^verbatim>\<open>NULL\<close> on the first row.
\<close>

type_synonym dataframe = "string \<rightharpoonup> string option list"

definition int32_max :: int where
  "int32_max = 2 ^ 31 - 1"

definition wrap32 :: "int \<Rightarrow> int" where
  "wrap32 x = (x + 2 ^ 31) mod 2 ^ 32 - 2 ^ 31"

definition cast_integer :: "(string \<Rightarrow> int option) \<Rightarrow> string option \<Rightarrow> int option" where
  "cast_integer other v =
     (case v of
        None \<Rightarrow> None
      | Some s \<Rightarrow>
          if decimal_digits s
          then (if int_of_string s \<le> int32_max then Some (int_of_string s) else None)
          else other s)"

definition lag :: "int option list \<Rightarrow> int option list" where
  "lag column = take (length column) (None # column)"

definition minus32 :: "int option \<Rightarrow> int option \<Rightarrow> int option" where
  "minus32 a b =
     (case a of
        None \<Rightarrow> None
      | Some x \<Rightarrow> (case b of None \<Rightarrow> None | Some y \<Rightarrow> Some (wrap32 (x - y))))"

text \<open>
  \<^verbatim>\<open>ColumnValuesStringIntegersIncreasing._spark\<close>. The execution engine is not
  part of these modules; \<open>compute_domain\<close> is what its
  \<^verbatim>\<open>get_compute_domain(metric_domain_kwargs, domain_type=COLUMN)\<close> answers: an
  exception, or the data frame with the two dictionaries that are handed back unchanged.
\<close>

definition increasing_spark ::
  "(string \<Rightarrow> int option) \<Rightarrow> (error + dataframe \<times> kwargs \<times> kwargs) \<Rightarrow>
   kwargs \<Rightarrow> kwargs \<Rightarrow> (string \<rightharpoonup> column_metadata list) \<Rightarrow>
   error + bool list \<times> kwargs \<times> kwargs" where
  "increasing_spark other compute_domain metric_domain_kwargs metric_value_kwargs metrics =
     (case map_of metric_domain_kwargs ''column'' of
        None \<Rightarrow> Inl (KeyError ''column'')
      | Some column_name \<Rightarrow>
     (case metrics ''table.column_types'' of
        None \<Rightarrow> Inl (KeyError ''table.column_types'')
      | Some table_columns \<Rightarrow>
     (case filter (\<lambda>col. PyStr (name col) = column_name) table_columns of
        [] \<Rightarrow> Inl (IndexError ''list index out of range'')
      | column_metadata # _ \<Rightarrow>
     if type column_metadata = StringType
     then
       (case compute_domain of
          Inl e \<Rightarrow> Inl e
        | Inr (df, compute_domain_kwargs, accessor_domain_kwargs) \<Rightarrow>
       (case df (name column_metadata) of
          None \<Rightarrow> Inl (EngineError ''cannot resolve column'')
        | Some strings \<Rightarrow>
            (let column = map (cast_integer other) strings in
             if list_ex (\<lambda>v. v = None) column
             then Inl (TypeError cast_message)
             else
               (let diff = map2 minus32 column (lag column);
                    diff = map (\<lambda>d. case d of None \<Rightarrow> 1 | Some v \<Rightarrow> v) diff
                in case map_of metric_value_kwargs ''strictly'' of
                     None \<Rightarrow> Inl (KeyError ''strictly'')
                   | Some strictly \<Rightarrow>
                       (let diff = (if strictly = PyBool True
                                    then map (\<lambda>d. \<not> d \<le> 0) diff
                                    else map (\<lambda>d. \<not> d < 0) diff)
                        in Inr (drop 1 diff, compute_domain_kwargs, accessor_domain_kwargs))))))
     else Inl (TypeError cast_message))))"

subsection \<open>The dependency declaration\<close>

text \<open>
  \<^verbatim>\<open>MetricConfiguration\<close> with its three fields, and
  \<^verbatim>\<open>_get_evaluation_dependencies\<close>. The dictionary returned by the parent class is
  the first argument.
\<close>

record metric_configuration =
  metric_name :: string
  metric_domain_kwargs :: kwargs
  metric_value_kwargs :: kwargs

definition get_evaluation_dependencies ::
  "(string \<rightharpoonup> metric_configuration) \<Rightarrow> metric_configuration \<Rightarrow>
   (string \<rightharpoonup> metric_configuration)" where
  "get_evaluation_dependencies super_dependencies metric =
     (let dependencies = super_dependencies;
          table_domain_kwargs = filter (\<lambda>(k, v). k \<noteq> ''column'') (metric_domain_kwargs metric)
      in dependencies(''table.column_types'' \<mapsto>
           \<lparr>metric_name = ''table.column_types'',
            metric_domain_kwargs = table_domain_kwargs,
            metric_value_kwargs = [(''include_nested'', PyBool True)]\<rparr>))"

subsection \<open>The verdict\<close>

text \<open>
  \<^verbatim>\<open>np.unique(mask, return_counts=True)\<close>: the distinct values in ascending order
  and how often each occurs. \<^verbatim>\<open>_validate\<close> reads the mask as the first component of
  the metric stored under the map metric's name, whose suffix
  \<^verbatim>\<open>MetricPartialFunctionTypeSuffixes.MAP.value\<close> is declared in another module
  and is the first argument. \<^verbatim>\<open>metrics.get\<close> gives \<^verbatim>\<open>None\<close> for a missing key,
  which cannot be subscripted.
\<close>

definition np_unique :: "bool list \<Rightarrow> bool list \<times> nat list" where
  "np_unique ar = (let values = sort (remdups ar) in (values, map (count_list ar) values))"

record expectation_validation_result =
  observed_value :: "bool list \<times> nat list"
  success :: bool

definition validate ::
  "string \<Rightarrow> (string \<rightharpoonup> bool list \<times> kwargs \<times> kwargs) \<Rightarrow>
   error + expectation_validation_result" where
  "validate map_suffix metrics =
     (case metrics (''column_values.string_integers.increasing.'' @ map_suffix) of
        None \<Rightarrow> Inl (TypeError ([CHR 0x27] @ ''NoneType'' @ [CHR 0x27]
                                  @ '' object is not subscriptable''))
      | Some string_integers_increasing \<Rightarrow>
          Inr \<lparr>observed_value = np_unique (fst string_integers_increasing),
               success = list_all (\<lambda>b. b) (fst string_integers_increasing)\<rparr>)"

section \<open>Vocabulary of the properties\<close>

subsection \<open>Schemas\<close>

text \<open>
  A \<open>struct_field\<close> is a field of a schema as pyspark builds it: a
  \<^verbatim>\<open>StructField\<close> whose struct type, if it has one, holds such fields again.
  \<open>recognized\<close> is wider: every object that the flattening accepts when it descends
  into all structs. \<open>nested_fields\<close> lists the fields of an object at every depth, a
  parent before its children, and \<open>dataType_of\<close> reads a field's type.
\<close>

fun struct_field :: "pyobj \<Rightarrow> bool" where
  "struct_field (StructField field_name (StructType child_fields)) =
     list_all struct_field child_fields"
| "struct_field (StructField field_name dataType) = True"
| "struct_field other = False"

fun recognized :: "pyobj \<Rightarrow> bool" where
  "recognized (StructType struct_fields) = list_all recognized struct_fields"
| "recognized (StructField field_name (StructType child_fields)) =
     list_all recognized child_fields"
| "recognized (StructField field_name dataType) = True"
| "recognized other = False"

fun nested_fields :: "pyobj \<Rightarrow> pyobj list" where
  "nested_fields (StructType struct_fields) = concat (map nested_fields struct_fields)"
| "nested_fields (StructField field_name (StructType child_fields)) =
     StructField field_name (StructType child_fields) # concat (map nested_fields child_fields)"
| "nested_fields (StructField field_name dataType) = [StructField field_name dataType]"
| "nested_fields other = []"

fun dataType_of :: "pyobj \<Rightarrow> pyobj" where
  "dataType_of (StructField field_name dataType) = dataType"
| "dataType_of other = other"

text \<open>
  The flattening as the specification words it. An entry's name is the names of its
  parents and its own name joined with dots, the own name wrapped in backticks when it
  contains a dot; a struct-typed field is followed by the entries of its children.
\<close>

fun join_dots :: "string list \<Rightarrow> string" where
  "join_dots [] = []"
| "join_dots [x] = x"
| "join_dots (x # y # ys) = x @ ''.'' @ join_dots (y # ys)"

definition quote_name :: "string \<Rightarrow> string" where
  "quote_name field_name =
     (if CHR ''.'' \<in> set field_name then ''`'' @ field_name @ ''`'' else field_name)"

fun flatten_spec :: "string list \<Rightarrow> pyobj \<Rightarrow> column_metadata list" where
  "flatten_spec parents (StructField field_name (StructType child_fields)) =
     \<lparr>name = join_dots (parents @ [quote_name field_name]), type = StructType child_fields\<rparr>
     # concat (map (flatten_spec (parents @ [field_name])) child_fields)"
| "flatten_spec parents (StructField field_name dataType) =
     [\<lparr>name = join_dots (parents @ [quote_name field_name]), type = dataType\<rparr>]"
| "flatten_spec parents other = []"

text \<open>
  The same flattening with one change: parents named by the empty string that come
  first in the list of parents are left out of the joined name.
\<close>

fun flatten_dotted :: "string list \<Rightarrow> pyobj \<Rightarrow> column_metadata list" where
  "flatten_dotted parents (StructField field_name (StructType child_fields)) =
     \<lparr>name = join_dots (dropWhile (\<lambda>p. p = []) parents @ [quote_name field_name]),
      type = StructType child_fields\<rparr>
     # concat (map (flatten_dotted (parents @ [field_name])) child_fields)"
| "flatten_dotted parents (StructField field_name dataType) =
     [\<lparr>name = join_dots (dropWhile (\<lambda>p. p = []) parents @ [quote_name field_name]),
       type = dataType\<rparr>]"
| "flatten_dotted parents other = []"

subsection \<open>Columns of integer strings\<close>

text \<open>
  A \<open>decimal_literal\<close> is a string that \<^verbatim>\<open>int\<close> reads: one to 4300 of the
  decimal digits \<open>0\<close> to \<open>9\<close>.
\<close>

definition decimal_literal :: "string \<Rightarrow> bool" where
  "decimal_literal s = (decimal_digits s \<and> length s \<le> int_max_str_digits)"

section \<open>Schema flattening\<close>

subsection \<open>Joining names\<close>

lemma join_dots_snoc: "ps \<noteq> [] \<Longrightarrow> join_dots (ps @ [n]) = join_dots ps @ ''.'' @ n"
  by (induction ps rule: join_dots.induct) auto

lemma join_dots_nonempty: "ps \<noteq> [] \<Longrightarrow> hd ps \<noteq> [] \<Longrightarrow> join_dots ps \<noteq> []"
  by (induction ps rule: join_dots.induct) auto

lemma join_dots_empty_iff:
  "ps \<noteq> [] \<longrightarrow> hd ps \<noteq> [] \<Longrightarrow> join_dots ps = [] \<longleftrightarrow> ps = []"
  using join_dots_nonempty [of ps] by auto

lemma join_dots_last:
  "join_dots (ps @ [n]) = (if ps = [] then n else join_dots ps @ ''.'' @ n)"
  by (simp add: join_dots_snoc)

text \<open>The parent string that the code carries, in terms of the list of parents.\<close>

lemma path_empty_iff:
  "join_dots (dropWhile (\<lambda>p. p = []) ps) = [] \<longleftrightarrow> dropWhile (\<lambda>p. p = []) ps = []"
proof (rule join_dots_empty_iff, rule impI)
  assume "dropWhile (\<lambda>p. p = []) ps \<noteq> []"
  then show "hd (dropWhile (\<lambda>p. p = []) ps) \<noteq> []"
    using hd_dropWhile [of "\<lambda>p. p = []" ps] by simp
qed

lemma path_name:
  "join_dots (dropWhile (\<lambda>p. p = []) ps @ [q])
     = (if join_dots (dropWhile (\<lambda>p. p = []) ps) = [] then q
        else join_dots (dropWhile (\<lambda>p. p = []) ps) @ ''.'' @ q)"
  by (simp add: path_empty_iff join_dots_last)

lemma path_snoc:
  "join_dots (dropWhile (\<lambda>p. p = []) (ps @ [n]))
     = (if join_dots (dropWhile (\<lambda>p. p = []) ps) = [] then n
        else join_dots (dropWhile (\<lambda>p. p = []) ps) @ ''.'' @ n)"
proof (cases "dropWhile (\<lambda>p. p = []) ps = []")
  case True
  then have "\<forall>p \<in> set ps. p = []" by (simp add: dropWhile_eq_Nil_conv)
  then have longer: "dropWhile (\<lambda>p. p = []) (ps @ [n]) = dropWhile (\<lambda>p. p = []) [n]"
    by (simp add: dropWhile_append)
  have "join_dots (dropWhile (\<lambda>p. p = []) [n]) = n"
    by simp
  then show ?thesis
    unfolding longer True by simp
next
  case False
  then have "\<not> (\<forall>p \<in> set ps. p = [])" by (simp add: dropWhile_eq_Nil_conv)
  then have "dropWhile (\<lambda>p. p = []) (ps @ [n]) = dropWhile (\<lambda>p. p = []) ps @ [n]"
    by (auto simp: dropWhile_append)
  then show ?thesis using False by (simp add: path_empty_iff join_dots_last)
qed

subsection \<open>The loop over the children\<close>

lemma children_all:
  assumes "\<And>c. c \<in> set cs \<Longrightarrow> get_spark_column_metadata sp c p inc = Inr (g c)"
  shows "get_spark_column_metadata_children sp cs p inc = Inr (concat (map g cs))"
  using assms by (induction cs) auto

lemma children_error:
  assumes "\<And>c e. c \<in> set cs \<Longrightarrow> get_spark_column_metadata sp c p inc = Inl e
             \<Longrightarrow> e = unrecognized"
    and "get_spark_column_metadata_children sp cs p inc = Inl e"
  shows "e = unrecognized"
  using assms by (induction cs) (auto split: sum.splits)

lemma only_error:
  "get_spark_column_metadata sp f p inc = Inl e \<Longrightarrow> e = unrecognized"
proof (induction f arbitrary: p inc e rule: recognized.induct)
  case (1 struct_fields)
  then show ?case
    by (auto simp: Let_def split: if_splits dest: children_error [rotated])
next
  case (2 field_name child_fields)
  then show ?case
    by (auto simp: Let_def split: if_splits sum.splits dest: children_error [rotated])
qed (auto simp: Let_def split: if_splits)

lemma children_unrecognized:
  assumes "\<And>c. c \<in> set cs \<Longrightarrow> \<not> recognized c
             \<Longrightarrow> get_spark_column_metadata sp c p True = Inl unrecognized"
    and "\<not> list_all recognized cs"
  shows "get_spark_column_metadata_children sp cs p True = Inl unrecognized"
  using assms
proof (induction cs)
  case Nil
  then show ?case by simp
next
  case (Cons c cs)
  show ?case
  proof (cases "get_spark_column_metadata sp c p True")
    case (Inl e)
    then show ?thesis using only_error [OF Inl] by simp
  next
    case (Inr cols)
    then have "recognized c" using Cons.prems(1) [of c] by auto
    then have "\<not> list_all recognized cs" using Cons.prems(2) by simp
    then have "get_spark_column_metadata_children sp cs p True = Inl unrecognized"
      using Cons.IH Cons.prems(1) by simp
    then show ?thesis using Inr by simp
  qed
qed

lemma children_kept:
  assumes "\<And>c. c \<in> set cs \<Longrightarrow>
             \<exists>cols. get_spark_column_metadata sp c p inc = Inr cols \<and> map type cols = g c"
  shows "\<exists>cols. get_spark_column_metadata_children sp cs p inc = Inr cols
           \<and> map type cols = concat (map g cs)"
  using assms
proof (induction cs)
  case Nil
  then show ?case by simp
next
  case (Cons c cs)
  obtain xs where xs: "get_spark_column_metadata sp c p inc = Inr xs" "map type xs = g c"
    using Cons.prems [of c] by auto
  obtain ys where ys: "get_spark_column_metadata_children sp cs p inc = Inr ys"
      "map type ys = concat (map g cs)"
    using Cons.IH Cons.prems by auto
  show ?case using xs ys by simp
qed

subsection \<open>One field and what lies below it\<close>

lemma field_refines:
  "struct_field f \<Longrightarrow>
     get_spark_column_metadata True f (join_dots (dropWhile (\<lambda>p. p = []) ps)) True
       = Inr (flatten_dotted ps f)"
proof (induction f arbitrary: ps rule: struct_field.induct)
  case (1 field_name child_fields)
  let ?qs = "ps @ [field_name]"
  have kids: "get_spark_column_metadata True c (join_dots (dropWhile (\<lambda>p. p = []) ?qs)) True
                = Inr (flatten_dotted ?qs c)"
    if "c \<in> set child_fields" for c
    using that "1.IH" [of c ?qs] "1.prems" by (simp add: list_all_iff)
  have rest: "get_spark_column_metadata_children True child_fields
                (join_dots (dropWhile (\<lambda>p. p = []) ?qs)) True
                = Inr (concat (map (flatten_dotted ?qs) child_fields))"
    by (rule children_all) (rule kids)
  show ?case
    using rest
    by (auto simp: Let_def path_snoc path_name quote_name_def)
qed (auto simp: Let_def path_name quote_name_def)

lemma not_recognized:
  "\<not> recognized f \<Longrightarrow> get_spark_column_metadata sp f p True = Inl unrecognized"
proof (induction f arbitrary: p rule: recognized.induct)
  case (1 struct_fields)
  have "get_spark_column_metadata_children sp struct_fields q True = Inl unrecognized" for q
    using 1 by (intro children_unrecognized) simp_all
  then show ?case
    by (cases sp) (simp_all add: Let_def)
next
  case (2 field_name child_fields)
  have "get_spark_column_metadata_children sp child_fields q True = Inl unrecognized" for q
    using 2 by (intro children_unrecognized) simp_all
  then show ?case
    by (cases sp) (simp_all add: Let_def)
qed simp_all

lemma recognized_kept:
  "recognized f \<Longrightarrow>
     \<exists>cols. get_spark_column_metadata True f p True = Inr cols
        \<and> map type cols = map dataType_of (nested_fields f)"
proof (induction f arbitrary: p rule: recognized.induct)
  case (1 struct_fields)
  have "\<exists>cols. get_spark_column_metadata_children True struct_fields q True = Inr cols
          \<and> map type cols = concat (map (\<lambda>c. map dataType_of (nested_fields c)) struct_fields)"
    for q
    using 1 by (intro children_kept) (simp add: list_all_iff)
  then show ?case
    by (simp add: Let_def map_concat comp_def)
next
  case (2 field_name child_fields)
  have "\<exists>cols. get_spark_column_metadata_children True child_fields q True = Inr cols
          \<and> map type cols = concat (map (\<lambda>c. map dataType_of (nested_fields c)) child_fields)"
    for q
    using 2 by (intro children_kept) (simp add: list_all_iff)
  from this [of "(if p \<noteq> [] then p @ ''.'' else p) @ field_name"]
  show ?case
    by (auto simp: Let_def map_concat comp_def)
qed (simp_all add: Let_def)

subsection \<open>Nested fields and their names\<close>

text \<open>
  Claim C6, amended. Flattening a schema with \<^verbatim>\<open>include_nested=True\<close> returns, for
  every field and in schema order, an entry for the field itself and then the entries
  of the fields nested in it when its type is a struct. The name of an entry is the
  names of the enclosing fields, leaving out those named by the empty string that come
  first, and the field's own name joined with dots; an own name that contains a dot
  stands in backticks behind that prefix. So every schema that holds a struct field
  \<open>outer\<close> with a child \<open>inner\<close> gives \<open>outer\<close> with the struct type and
  \<open>outer.inner\<close> with the child's type. The schema is one that pyspark builds:
  its members are fields.
\<close>

theorem nested_names_dotted:
  assumes "list_all struct_field fs"
  shows "\<exists>cols. get_spark_column_metadata True (StructType fs) [] True = Inr cols
           \<and> cols = concat (map (flatten_dotted []) fs)
           \<and> (\<forall>outer cs inner t.
                 outer \<noteq> [] \<and> StructField outer (StructType cs) \<in> set fs
                   \<and> StructField inner t \<in> set cs \<longrightarrow>
                 \<lparr>name = quote_name outer, type = StructType cs\<rparr> \<in> set cols
                 \<and> \<lparr>name = outer @ ''.'' @ quote_name inner, type = t\<rparr> \<in> set cols)"
proof -
  let ?cols = "concat (map (flatten_dotted []) fs)"
  have "get_spark_column_metadata True c [] True = Inr (flatten_dotted [] c)"
    if "c \<in> set fs" for c
    using that assms field_refines [of c "[]"] by (simp add: list_all_iff)
  then have "get_spark_column_metadata_children True fs [] True = Inr ?cols"
    by (rule children_all)
  then have returned: "get_spark_column_metadata True (StructType fs) [] True = Inr ?cols"
    by simp
  have own: "\<lparr>name = quote_name outer, type = StructType cs\<rparr> \<in> set ?cols"
    if "StructField outer (StructType cs) \<in> set fs" for outer cs
    using that by force
  have child: "\<lparr>name = outer @ ''.'' @ quote_name inner, type = t\<rparr> \<in> set ?cols"
    if "outer \<noteq> []" and "StructField outer (StructType cs) \<in> set fs"
      and "StructField inner t \<in> set cs" for outer cs inner t
  proof -
    have "\<lparr>name = outer @ ''.'' @ quote_name inner, type = t\<rparr>
            \<in> set (flatten_dotted [outer] (StructField inner t))"
      using that(1) by (cases t) simp_all
    then have "\<lparr>name = outer @ ''.'' @ quote_name inner, type = t\<rparr>
            \<in> set (flatten_dotted [] (StructField outer (StructType cs)))"
      using that(3) by force
    then show ?thesis using that(2) by force
  qed
  show ?thesis
    using returned own child by blast
qed

theorem nested_names_dotted_witness:
  "list_all struct_field
     [StructField ''outer'' (StructType [StructField ''inner'' LongType]),
      StructField ''a.b'' (StructType [StructField ''c.d'' StringType]),
      StructField [] (StructType [StructField ''x'' LongType])]
   \<and> get_spark_column_metadata True
       (StructType
         [StructField ''outer'' (StructType [StructField ''inner'' LongType]),
          StructField ''a.b'' (StructType [StructField ''c.d'' StringType]),
          StructField [] (StructType [StructField ''x'' LongType])]) [] True
     = Inr [\<lparr>name = ''outer'', type = StructType [StructField ''inner'' LongType]\<rparr>,
            \<lparr>name = ''outer.inner'', type = LongType\<rparr>,
            \<lparr>name = ''`a.b`'', type = StructType [StructField ''c.d'' StringType]\<rparr>,
            \<lparr>name = ''a.b.`c.d`'', type = StringType\<rparr>,
            \<lparr>name = [], type = StructType [StructField ''x'' LongType]\<rparr>,
            \<lparr>name = ''x'', type = LongType\<rparr>]"
  using nested_names_dotted
    [of "[StructField ''outer'' (StructType [StructField ''inner'' LongType]),
          StructField ''a.b'' (StructType [StructField ''c.d'' StringType]),
          StructField [] (StructType [StructField ''x'' LongType])]"]
  by (simp add: quote_name_def)

text \<open>
  The claim as first stated joins all parent names with dots. A struct field named by
  the empty string with the child \<open>x\<close> then asks for the name \<open>.x\<close>; the code, which
  takes an empty parent name for no parent, returns \<open>x\<close>.
\<close>

theorem empty_parent_adds_no_dot:
  "get_spark_column_metadata True
     (StructType [StructField [] (StructType [StructField ''x'' LongType])]) [] True
     = Inr [\<lparr>name = [], type = StructType [StructField ''x'' LongType]\<rparr>,
            \<lparr>name = ''x'', type = LongType\<rparr>]
   \<and> flatten_spec [] (StructField [] (StructType [StructField ''x'' LongType]))
     = [\<lparr>name = [], type = StructType [StructField ''x'' LongType]\<rparr>,
        \<lparr>name = ''.x'', type = LongType\<rparr>]"
  by (simp add: quote_name_def)

subsection \<open>Flattening without nested fields\<close>

text \<open>
  Claim C7. With \<^verbatim>\<open>include_nested=False\<close> the flattening should return one entry
  for each top-level field and none for the fields nested in struct columns. The code
  does not: the loop over the fields of the schema calls the function without
  \<^verbatim>\<open>include_nested\<close>, which falls back to \<^verbatim>\<open>True\<close>. The schema with the one
  top-level field \<open>outer\<close> that holds \<open>inner\<close> gives two entries.
\<close>

theorem include_nested_false_lost:
  "column_types_spark True
     (StructType [StructField ''outer'' (StructType [StructField ''inner'' LongType])]) False
   = Inr [\<lparr>name = ''outer'', type = StructType [StructField ''inner'' LongType]\<rparr>,
          \<lparr>name = ''outer.inner'', type = LongType\<rparr>]"
  by (simp add: column_types_spark_def)

subsection \<open>Unrecognized objects\<close>

text \<open>
  Claim C9. An object that is neither a \<^verbatim>\<open>StructType\<close> nor a
  \<^verbatim>\<open>StructField\<close> makes the flattening raise
  \<^verbatim>\<open>ValueError("unrecognized field type")\<close>, whatever the other arguments are. With
  nested fields included the same error is raised when such an object sits anywhere
  among the members that are visited, so nothing is left out silently; and when every
  visited object is recognized, the call returns and its entries carry, in order, the
  types of all fields at every depth, one entry for each field.
\<close>

theorem unrecognized_raises:
  "((\<forall>ms. field \<noteq> StructType ms) \<and> (\<forall>n t. field \<noteq> StructField n t) \<longrightarrow>
      get_spark_column_metadata sparktypes field parent_name include_nested = Inl unrecognized)
   \<and> (\<not> recognized field \<longrightarrow>
      get_spark_column_metadata sparktypes field parent_name True = Inl unrecognized)
   \<and> (recognized field \<longrightarrow>
      (\<exists>cols. get_spark_column_metadata True field parent_name True = Inr cols
         \<and> map type cols = map dataType_of (nested_fields field)))"
proof (intro conjI impI)
  assume "(\<forall>ms. field \<noteq> StructType ms) \<and> (\<forall>n t. field \<noteq> StructField n t)"
  then show "get_spark_column_metadata sparktypes field parent_name include_nested
               = Inl unrecognized"
    by (cases field) simp_all
next
  assume "\<not> recognized field"
  then show "get_spark_column_metadata sparktypes field parent_name True = Inl unrecognized"
    by (rule not_recognized)
next
  assume "recognized field"
  then show "\<exists>cols. get_spark_column_metadata True field parent_name True = Inr cols
               \<and> map type cols = map dataType_of (nested_fields field)"
    by (rule recognized_kept)
qed

theorem unrecognized_raises_witness:
  "get_spark_column_metadata True (ArrayType LongType) [] False
     = Inl (ValueError ''unrecognized field type'')
   \<and> \<not> recognized (StructType [StructField ''x'' (StructType [LongType])])
   \<and> get_spark_column_metadata True
        (StructType [StructField ''x'' (StructType [LongType])]) [] True
     = Inl (ValueError ''unrecognized field type'')
   \<and> recognized (StructType [StructField ''x'' (StructType [StructField ''y'' LongType])])
   \<and> get_spark_column_metadata True
        (StructType [StructField ''x'' (StructType [StructField ''y'' LongType])]) [] True
     = Inr [\<lparr>name = ''x'', type = StructType [StructField ''y'' LongType]\<rparr>,
            \<lparr>name = ''x.y'', type = LongType\<rparr>]"
  using unrecognized_raises [of "ArrayType LongType" True "[]" False]
    unrecognized_raises [of "StructType [StructField ''x'' (StructType [LongType])]" True "[]" True]
    unrecognized_raises
      [of "StructType [StructField ''x'' (StructType [StructField ''y'' LongType])]" True "[]" True]
  by (simp add: unrecognized_def)

section \<open>The increasing metric\<close>

subsection \<open>Digit strings as machine integers\<close>

lemma digit_value: "c \<in> set ''0123456789'' \<Longrightarrow> (0::int) \<le> of_char c - 48"
  by auto

lemma foldl_digits_nonneg:
  "list_all (\<lambda>c. c \<in> set ''0123456789'') s \<Longrightarrow> 0 \<le> acc \<Longrightarrow>
     (0::int) \<le> foldl (\<lambda>acc c. 10 * acc + (of_char c - 48)) acc s"
proof (induction s arbitrary: acc)
  case Nil
  then show ?case by simp
next
  case (Cons c s)
  have "(0::int) \<le> of_char c - 48" using Cons.prems(1) by (intro digit_value) simp
  then have "0 \<le> 10 * acc + (of_char c - 48)" using Cons.prems(2) by simp
  then show ?case using Cons.IH Cons.prems(1) by simp
qed

lemma int_of_string_nonneg: "decimal_digits s \<Longrightarrow> 0 \<le> int_of_string s"
  unfolding decimal_digits_def decimal_char_def int_of_string_def
  by (simp add: foldl_digits_nonneg)

lemma decimal_literal_isdigit: "decimal_literal s \<Longrightarrow> isdigit s"
  by (auto simp: decimal_literal_def decimal_digits_def isdigit_def digit_char_def list_all_iff)

lemma length_takeWhile_all: "list_all P xs \<Longrightarrow> length (takeWhile P xs) = length xs"
  by (induction xs) auto

lemma py_int_ok: "decimal_literal s \<Longrightarrow> py_int s = Inr (int_of_string s)"
  by (simp add: py_int_def decimal_literal_def decimal_digits_def length_takeWhile_all)

lemma py_int_returns:
  assumes "py_int s = Inr v"
  shows "decimal_literal s \<and> v = int_of_string s"
proof -
  have d: "decimal_digits s" and v: "v = int_of_string s"
    and short: "length (takeWhile decimal_char s) \<le> int_max_str_digits"
    using assms by (auto simp: py_int_def split: if_splits)
  have "length (takeWhile decimal_char s) = length s"
    using d by (simp add: decimal_digits_def length_takeWhile_all)
  then show ?thesis
    using d v short by (simp add: decimal_literal_def)
qed

lemma wrap64_id: "- (2 ^ 63) \<le> x \<Longrightarrow> x < 2 ^ 63 \<Longrightarrow> wrap64 x = x"
  by (simp add: wrap64_def)

lemma wrap32_id: "- (2 ^ 31) \<le> x \<Longrightarrow> x < 2 ^ 31 \<Longrightarrow> wrap32 x = x"
  by (simp add: wrap32_def)

lemma astype_int_ok:
  "list_all decimal_literal column \<Longrightarrow>
   list_all (\<lambda>s. int_of_string s \<le> int64_max) column \<Longrightarrow>
     astype_int column = Inr (map int_of_string column)"
  by (induction column) (auto simp: py_int_ok)

lemma astype_int_returns:
  "astype_int column = Inr vals \<Longrightarrow>
     list_all decimal_literal column \<and> list_all (\<lambda>s. int_of_string s \<le> int64_max) column"
proof (induction column arbitrary: vals)
  case Nil
  then show ?case by simp
next
  case (Cons s rest)
  obtain v where v: "py_int s = Inr v"
    using Cons.prems by (cases "py_int s") auto
  then have s: "decimal_literal s" "v = int_of_string s"
    using py_int_returns by auto
  have small: "v \<le> int64_max"
    using Cons.prems v by (auto split: if_splits)
  obtain vs where "astype_int rest = Inr vs"
    using Cons.prems v small by (cases "astype_int rest") auto
  then show ?case
    using Cons.IH s small by simp
qed

lemma np_diff_exact:
  assumes "list_all (\<lambda>x. 0 \<le> x \<and> x \<le> int64_max) a"
  shows "np_diff a = map2 (\<lambda>x y. y - x) a (tl a)"
proof -
  have "wrap64 (y - x) = y - x" if "(x, y) \<in> set (zip a (tl a))" for x y
  proof -
    have "x \<in> set a" using that by (rule set_zip_leftD)
    have "y \<in> set (tl a)" using that by (rule set_zip_rightD)
    then have "y \<in> set a" by (cases a) auto
    then have "0 \<le> x" "x \<le> int64_max" "0 \<le> y" "y \<le> int64_max"
      using assms \<open>x \<in> set a\<close> by (auto simp: list_all_iff)
    then show ?thesis by (intro wrap64_id) (simp_all add: int64_max_def)
  qed
  then show ?thesis by (auto simp: np_diff_def)
qed

lemma wrap32_diff:
  assumes "list_all (\<lambda>x. 0 \<le> x \<and> x \<le> int32_max) a"
  shows "map2 (\<lambda>x y. f (wrap32 (y - x))) a (tl a) = map2 (\<lambda>x y. f (y - x)) a (tl a)"
proof -
  have "wrap32 (y - x) = y - x" if "(x, y) \<in> set (zip a (tl a))" for x y
  proof -
    have "x \<in> set a" using that by (rule set_zip_leftD)
    have "y \<in> set (tl a)" using that by (rule set_zip_rightD)
    then have "y \<in> set a" by (cases a) auto
    then have "0 \<le> x" "x \<le> int32_max" "0 \<le> y" "y \<le> int32_max"
      using assms \<open>x \<in> set a\<close> by (auto simp: list_all_iff)
    then show ?thesis by (intro wrap32_id) (simp_all add: int32_max_def)
  qed
  then show ?thesis by auto
qed

subsection \<open>The mask of the pandas implementation\<close>

lemma pandas_mask:
  assumes "list_all decimal_literal column"
    and "list_all (\<lambda>s. int_of_string s \<le> int64_max) column"
  shows "increasing_pandas column kwargs =
           Inr (map2 (\<lambda>x y. if truthy (kwargs_get kwargs ''strictly'') then y - x > 0 else y - x \<ge> 0)
                  (map int_of_string column) (tl (map int_of_string column)))"
proof -
  have "list_all (\<lambda>x. 0 \<le> x \<and> x \<le> int64_max) (map int_of_string column)"
    using assms by (auto simp: list_all_iff int_of_string_nonneg decimal_literal_def)
  then have "np_diff (map int_of_string column)
               = map2 (\<lambda>x y. y - x) (map int_of_string column) (tl (map int_of_string column))"
    by (rule np_diff_exact)
  moreover have "list_all isdigit column"
    using assms(1) by (auto simp: list_all_iff decimal_literal_isdigit)
  ultimately show ?thesis
    using assms by (auto simp: increasing_pandas_def astype_int_ok Let_def)
qed

lemma pandas_returns:
  assumes "increasing_pandas column kwargs = Inr msk"
  shows "list_all decimal_literal column \<and> list_all (\<lambda>s. int_of_string s \<le> int64_max) column"
proof -
  obtain vals where "astype_int column = Inr vals"
    using assms by (cases "astype_int column") (auto simp: increasing_pandas_def split: if_splits)
  then show ?thesis by (rule astype_int_returns)
qed

text \<open>
  Two columns of digits that the gate lets through and the conversion refuses: a
  superscript two, and a one behind 4300 zeros.
\<close>

lemma pandas_refuses_superscript:
  "isdigit [CHR 0xB2]
   \<and> increasing_pandas [[CHR 0xB2]] kwargs
     = Inl (ValueError ''invalid literal for int() with base 10'')"
  by (simp add: increasing_pandas_def isdigit_def digit_char_def decimal_char_def py_int_def
        decimal_digits_def int_max_str_digits_def)

lemma pandas_refuses_long_string:
  "isdigit (replicate 4300 (CHR ''0'') @ ''1'')
   \<and> int_of_string (replicate 4300 (CHR ''0'') @ ''1'') = 1
   \<and> increasing_pandas [replicate 4300 (CHR ''0'') @ ''1''] kwargs
     = Inl (ValueError ''Exceeds the limit (4300 digits) for integer string conversion'')"
proof -
  let ?s = "replicate 4300 (CHR ''0'') @ ''1''"
  have digits: "list_all decimal_char ?s"
    by (simp add: decimal_char_def list_all_iff)
  then have gate: "isdigit ?s"
    by (simp add: isdigit_def digit_char_def list_all_iff)
  have "length (takeWhile decimal_char ?s) = length ?s"
    using digits by (rule length_takeWhile_all)
  then have "length (takeWhile decimal_char ?s) = 4301"
    by (simp only: length_append length_replicate) simp
  then have refused: "py_int ?s
      = Inl (ValueError ''Exceeds the limit (4300 digits) for integer string conversion'')"
    by (simp add: py_int_def int_max_str_digits_def)
  have zeros: "foldl (\<lambda>acc c. 10 * acc + (of_char c - 48)) (0::int) (replicate n (CHR ''0'')) = 0"
    for n
    by (induction n) simp_all
  have "int_of_string ?s = 1"
    by (simp add: int_of_string_def zeros)
  then show ?thesis
    using gate refused by (simp add: increasing_pandas_def)
qed

lemma pandas_short:
  "length column \<le> 1 \<Longrightarrow> increasing_pandas column kwargs = Inr msk \<Longrightarrow> msk = []"
  by (cases column)
     (auto simp: increasing_pandas_def np_diff_def Let_def split: if_splits sum.splits)

text \<open>
  Claim C2, amended. For a column \<open>v\<close> of \<open>n\<close> strings of one to 4300 decimal
  digits \<open>0\<close> to \<open>9\<close> whose values are at most \<open>2^63 - 1\<close>, the pandas
  implementation returns a mask of length \<open>n - 1\<close>
  whose element \<open>i\<close> is \<open>int(v[i+1]) - int(v[i]) > 0\<close> when \<^verbatim>\<open>strictly\<close> is true
  and \<open>int(v[i+1]) - int(v[i]) \<ge> 0\<close> otherwise. The column
  \<open>0, 1, 2, 3, 3, 9, 11\<close> gives a mask of six \<open>True\<close> without \<^verbatim>\<open>strictly\<close> and a
  mask with \<open>False\<close> at the pair \<open>3, 3\<close> with it.
\<close>

theorem pandas_pairwise_mask:
  assumes "list_all decimal_literal v" and "list_all (\<lambda>s. int_of_string s \<le> int64_max) v"
  shows "(\<exists>msk. increasing_pandas v kwargs = Inr msk \<and> length msk = length v - 1
           \<and> (\<forall>i<length msk. msk ! i =
                 (if truthy (kwargs_get kwargs ''strictly'')
                  then int_of_string (v ! (i + 1)) - int_of_string (v ! i) > 0
                  else int_of_string (v ! (i + 1)) - int_of_string (v ! i) \<ge> 0)))
         \<and> increasing_pandas [''0'', ''1'', ''2'', ''3'', ''3'', ''9'', ''11'']
               [(''strictly'', PyBool False)]
             = Inr [True, True, True, True, True, True]
         \<and> increasing_pandas [''0'', ''1'', ''2'', ''3'', ''3'', ''9'', ''11'']
               [(''strictly'', PyBool True)]
             = Inr [True, True, True, False, True, True]"
proof (intro conjI)
  show "\<exists>msk. increasing_pandas v kwargs = Inr msk \<and> length msk = length v - 1
           \<and> (\<forall>i<length msk. msk ! i =
                 (if truthy (kwargs_get kwargs ''strictly'')
                  then int_of_string (v ! (i + 1)) - int_of_string (v ! i) > 0
                  else int_of_string (v ! (i + 1)) - int_of_string (v ! i) \<ge> 0))"
    using pandas_mask [OF assms, of kwargs] by (auto simp: nth_tl)
next
  show "increasing_pandas [''0'', ''1'', ''2'', ''3'', ''3'', ''9'', ''11'']
          [(''strictly'', PyBool False)]
        = Inr [True, True, True, True, True, True]"
    by (simp add: increasing_pandas_def isdigit_def digit_char_def decimal_char_def decimal_digits_def decimal_literal_def
        py_int_def int_max_str_digits_def int_of_string_def int64_max_def
          np_diff_def wrap64_def kwargs_get_def)
next
  show "increasing_pandas [''0'', ''1'', ''2'', ''3'', ''3'', ''9'', ''11'']
          [(''strictly'', PyBool True)]
        = Inr [True, True, True, False, True, True]"
    by (simp add: increasing_pandas_def isdigit_def digit_char_def decimal_char_def decimal_digits_def decimal_literal_def
        py_int_def int_max_str_digits_def int_of_string_def int64_max_def
          np_diff_def wrap64_def kwargs_get_def)
qed

theorem pandas_pairwise_mask_witness:
  "list_all decimal_literal [''7'', ''12'', ''12'']
   \<and> list_all (\<lambda>s. int_of_string s \<le> int64_max) [''7'', ''12'', ''12'']
   \<and> increasing_pandas [''7'', ''12'', ''12''] [(''strictly'', PyBool True)] = Inr [True, False]"
  using pandas_pairwise_mask [of "[''7'', ''12'', ''12'']" "[(''strictly'', PyBool True)]"]
  by (simp add: increasing_pandas_def isdigit_def digit_char_def decimal_char_def decimal_digits_def decimal_literal_def
        py_int_def int_max_str_digits_def int_of_string_def int64_max_def
        np_diff_def wrap64_def kwargs_get_def)

text \<open>
  The claim as first stated asks this of every column of digit strings. The column
  with the single string \<open>9223372036854775808\<close>, which is \<open>2^63\<close>, has only digits,
  and the conversion to the 64-bit integer type raises. So does the conversion of a
  digit that is not decimal and of a run of more than 4300 digits, as shown above.
\<close>

theorem pandas_overflow_beyond_int64:
  "list_all isdigit [''9223372036854775808'']
   \<and> increasing_pandas [''9223372036854775808''] [(''strictly'', PyBool False)]
     = Inl (OverflowError ''Python int too large to convert to C long'')"
  by (simp add: increasing_pandas_def isdigit_def digit_char_def decimal_char_def decimal_digits_def decimal_literal_def
        py_int_def int_max_str_digits_def int_of_string_def int64_max_def)

text \<open>
  Claim C3. When some string of the column is not digit-only, which is to say that it
  fails \<^verbatim>\<open>str.isdigit\<close>, the test of the code, the pandas implementation raises
  \<^verbatim>\<open>TypeError\<close>; it returns no mask, for no part of the column.
\<close>

theorem non_digit_raises:
  "s \<in> set column \<Longrightarrow> \<not> isdigit s \<Longrightarrow>
     increasing_pandas column kwargs = Inl (TypeError cast_message)"
  by (auto simp: increasing_pandas_def list_all_iff)

theorem non_digit_raises_witness:
  "''2x'' \<in> set [''0'', ''1'', ''2x'', ''3''] \<and> \<not> isdigit ''2x''
   \<and> increasing_pandas [''0'', ''1'', ''2x'', ''3''] [(''strictly'', PyBool False)]
     = Inl (TypeError ''Column must be a string-type capable of being cast to int.'')"
  using non_digit_raises [of "''2x''" "[''0'', ''1'', ''2x'', ''3'']" "[(''strictly'', PyBool False)]"]
  by (simp add: isdigit_def digit_char_def decimal_char_def cast_message_def)

subsection \<open>The window of the Spark implementation\<close>

lemma lag_Cons: "lag (v # vs) = None # butlast (v # vs)"
  by (simp add: lag_def butlast_conv_take)

lemma window_pairs:
  "map2 minus32 (map Some ys) (map Some (butlast (x # ys)))
     = map2 (\<lambda>a b. Some (wrap32 (b - a))) (x # ys) ys"
  by (induction ys arbitrary: x) (simp_all add: minus32_def)

lemma spark_window:
  "drop 1 (map f (map (\<lambda>d. case d of None \<Rightarrow> 1 | Some v \<Rightarrow> v)
                   (map2 minus32 (map Some xs) (lag (map Some xs)))))
     = map2 (\<lambda>x y. f (wrap32 (y - x))) xs (tl xs)"
proof (cases xs)
  case Nil
  then show ?thesis by (simp add: lag_def)
next
  case (Cons x ys)
  have "butlast (Some x # map Some ys) = map Some (butlast (x # ys))"
    by (simp add: map_butlast [symmetric])
  then show ?thesis
    using Cons window_pairs [of ys x]
    by (simp add: lag_Cons drop_map minus32_def comp_def zip_map1 zip_map2 case_prod_beta
             del: butlast.simps)
qed

lemma cast_digits:
  assumes "list_all decimal_digits column"
    and "list_all (\<lambda>s. int_of_string s \<le> int32_max) column"
  shows "map (cast_integer other) (map Some column) = map Some (map int_of_string column)"
  using assms by (induction column) (simp_all add: cast_integer_def)

text \<open>What a returned mask tells about the arguments of the Spark implementation.\<close>

lemma spark_returns:
  assumes "increasing_spark other cd dk vk metrics = Inr r"
  obtains c tc m ms df cdk adk strings strictly where
    "map_of dk ''column'' = Some (PyStr c)" and "metrics ''table.column_types'' = Some tc"
    and "filter (\<lambda>col. name col = c) tc = m # ms" and "name m = c" and "type m = StringType"
    and "cd = Inr (df, cdk, adk)" and "df c = Some strings"
    and "None \<notin> set (map (cast_integer other) strings)"
    and "map_of vk ''strictly'' = Some strictly"
proof -
  obtain cn where 1: "map_of dk ''column'' = Some cn"
    using assms by (auto simp: increasing_spark_def split: option.splits)
  obtain tc where 2: "metrics ''table.column_types'' = Some tc"
    using assms 1 by (auto simp: increasing_spark_def split: option.splits)
  obtain m ms where 3: "filter (\<lambda>col. PyStr (name col) = cn) tc = m # ms"
    using assms 1 2 by (auto simp: increasing_spark_def split: list.splits)
  have "m \<in> set (filter (\<lambda>col. PyStr (name col) = cn) tc)"
    using 3 by simp
  then have cn: "cn = PyStr (name m)" by auto
  have 4: "type m = StringType"
    using assms 1 2 3 by (auto simp: increasing_spark_def split: if_splits)
  obtain df cdk adk where 5: "cd = Inr (df, cdk, adk)"
    using assms 1 2 3 4 by (cases cd) (auto simp: increasing_spark_def)
  obtain strings where 6: "df (name m) = Some strings"
    using assms 1 2 3 4 5 by (auto simp: increasing_spark_def split: option.splits)
  have 7: "None \<notin> set (map (cast_integer other) strings)"
    using assms 1 2 3 4 5 6
    by (auto simp: increasing_spark_def Let_def list_ex_iff split: if_splits)
  obtain strictly where 8: "map_of vk ''strictly'' = Some strictly"
    using assms 1 2 3 4 5 6 7
    by (auto simp: increasing_spark_def Let_def list_ex_iff split: if_splits option.splits)
  show ?thesis
    using that [of "name m" tc m ms df cdk adk strings strictly] 1 2 3 4 5 6 7 8 cn
    by simp
qed

subsection \<open>The two implementations side by side\<close>

text \<open>
  Claim C1, amended. Take a column without nulls of strings of one to 4300 decimal
  digits \<open>0\<close> to \<open>9\<close> whose values are at most \<open>2^31 - 1\<close>, given in the same
  order to both implementations, the Spark one
  with column metadata that lists the column as a string column. Then for
  \<^verbatim>\<open>strictly\<close> true and false alike the mask of the pandas implementation is, element
  by element, the mask that the Spark implementation returns once it has dropped the
  element made up for the first row.
\<close>

theorem backends_agree:
  assumes "list_all decimal_literal column"
    and "list_all (\<lambda>s. int_of_string s \<le> int32_max) column"
    and "map_of dk ''column'' = Some (PyStr c)"
    and "metrics ''table.column_types'' = Some table_columns"
    and "filter (\<lambda>col. name col = c) table_columns = m # ms"
    and "type m = StringType"
    and "df c = Some (map Some column)"
    and "map_of vk ''strictly'' = Some (PyBool strictly)"
  shows "\<exists>msk. increasing_pandas column vk = Inr msk
           \<and> increasing_spark other (Inr (df, cdk, adk)) dk vk metrics = Inr (msk, cdk, adk)"
proof -
  let ?vals = "map int_of_string column"
  have "m \<in> set (filter (\<lambda>col. name col = c) table_columns)"
    using assms(5) by simp
  then have m: "name m = c" by simp
  have digits: "list_all decimal_digits column"
    using assms(1) by (auto simp: list_all_iff decimal_literal_def)
  have small: "list_all (\<lambda>x. 0 \<le> x \<and> x \<le> int32_max) ?vals"
    using digits assms(2) by (auto simp: list_all_iff int_of_string_nonneg)
  have "list_all (\<lambda>s. int_of_string s \<le> int64_max) column"
    using assms(2) by (auto simp: list_all_iff int32_max_def int64_max_def)
  then have pandas: "increasing_pandas column vk
      = Inr (map2 (\<lambda>x y. if strictly then y - x > 0 else y - x \<ge> 0) ?vals (tl ?vals))"
    using pandas_mask [OF assms(1), of vk] assms(8) by (simp add: kwargs_get_def)
  have cast: "map (cast_integer other) (map Some column) = map Some ?vals"
    using digits assms(2) by (rule cast_digits)
  have window: "drop 1 (map f (map (\<lambda>d. case d of None \<Rightarrow> 1 | Some v \<Rightarrow> v)
                   (map2 minus32 (map Some ?vals) (lag (map Some ?vals)))))
     = map2 (\<lambda>x y. f (y - x)) ?vals (tl ?vals)" for f
    using spark_window [of f ?vals] wrap32_diff [OF small, of f] by simp
  have "increasing_spark other (Inr (df, cdk, adk)) dk vk metrics
      = Inr (map2 (\<lambda>x y. if strictly then y - x > 0 else y - x \<ge> 0) ?vals (tl ?vals), cdk, adk)"
    using assms(3,4,5,6,7,8) m cast window [of "\<lambda>d. \<not> d \<le> 0"] window [of "\<lambda>d. \<not> d < 0"]
    by (simp add: increasing_spark_def Let_def list_ex_iff not_le not_less
             del: drop_map map_map)
  then show ?thesis using pandas by simp
qed

theorem backends_agree_witness:
  "list_all decimal_literal [''1'', ''2'', ''3'', ''3'', ''0'', ''6'', ''9'']
   \<and> list_all (\<lambda>s. int_of_string s \<le> int32_max) [''1'', ''2'', ''3'', ''3'', ''0'', ''6'', ''9'']
   \<and> increasing_pandas [''1'', ''2'', ''3'', ''3'', ''0'', ''6'', ''9''] [(''strictly'', PyBool True)]
     = Inr [True, True, False, False, True, True]
   \<and> increasing_spark Map.empty
        (Inr ([''c'' \<mapsto> map Some [''1'', ''2'', ''3'', ''3'', ''0'', ''6'', ''9'']],
              [(''column'', PyStr ''c'')], []))
        [(''column'', PyStr ''c'')] [(''strictly'', PyBool True)]
        [''table.column_types'' \<mapsto> [\<lparr>name = ''c'', type = StringType\<rparr>]]
     = Inr ([True, True, False, False, True, True], [(''column'', PyStr ''c'')], [])"
  using backends_agree
    [where column = "[''1'', ''2'', ''3'', ''3'', ''0'', ''6'', ''9'']"
       and dk = "[(''column'', PyStr ''c'')]" and c = "''c''"
       and metrics = "[''table.column_types'' \<mapsto> [\<lparr>name = ''c'', type = StringType\<rparr>]]"
       and table_columns = "[\<lparr>name = ''c'', type = StringType\<rparr>]"
       and m = "\<lparr>name = ''c'', type = StringType\<rparr>" and ms = "[]"
       and df = "[''c'' \<mapsto> map Some [''1'', ''2'', ''3'', ''3'', ''0'', ''6'', ''9'']]"
       and vk = "[(''strictly'', PyBool True)]" and strictly = True
       and other = Map.empty and cdk = "[(''column'', PyStr ''c'')]" and adk = "[]"]
  by (simp add: increasing_pandas_def isdigit_def digit_char_def decimal_char_def decimal_digits_def decimal_literal_def
        py_int_def int_max_str_digits_def int_of_string_def int64_max_def int32_max_def
        np_diff_def wrap64_def kwargs_get_def)

text \<open>
  The claim as first stated asks this of every column of digit strings without nulls.
  The strings that the pandas implementation cannot convert, shown above, are left out
  as well. In the column \<open>0, 2147483648\<close> the second value is \<open>2^31\<close>: the pandas
  implementation returns the mask \<open>[True]\<close>, while the cast to the 32-bit
  \<^verbatim>\<open>IntegerType\<close> gives a null and the Spark implementation raises.
\<close>

theorem backends_differ_beyond_int32:
  "list_all isdigit [''0'', ''2147483648'']
   \<and> increasing_pandas [''0'', ''2147483648''] [(''strictly'', PyBool False)] = Inr [True]
   \<and> increasing_spark Map.empty
        (Inr ([''a'' \<mapsto> [Some ''0'', Some ''2147483648'']], [(''column'', PyStr ''a'')], []))
        [(''column'', PyStr ''a'')] [(''strictly'', PyBool False)]
        [''table.column_types'' \<mapsto> [\<lparr>name = ''a'', type = StringType\<rparr>]]
     = Inl (TypeError cast_message)"
  by (simp add: increasing_pandas_def increasing_spark_def isdigit_def digit_char_def decimal_char_def decimal_digits_def decimal_literal_def
        py_int_def int_max_str_digits_def int_of_string_def
        int64_max_def int32_max_def np_diff_def wrap64_def kwargs_get_def cast_integer_def)

subsection \<open>Nulls in the Spark column\<close>

text \<open>
  Claim C8. When the column read by the Spark implementation holds a null after the
  cast to integer (a null of the data, or a string that the cast turns into one), the
  implementation never returns a mask; with column metadata that lists the column as a
  string column it raises at the null check, before the window is computed. No null
  counts as a comparison that passes.
\<close>

theorem null_raises:
  assumes "map_of dk ''column'' = Some (PyStr c)"
    and "df c = Some strings"
    and "None \<in> set (map (cast_integer other) strings)"
  shows "(\<forall>r. increasing_spark other (Inr (df, cdk, adk)) dk vk metrics \<noteq> Inr r)
     \<and> (metrics ''table.column_types'' = Some table_columns
          \<and> filter (\<lambda>col. name col = c) table_columns = m # ms \<and> type m = StringType
         \<longrightarrow> increasing_spark other (Inr (df, cdk, adk)) dk vk metrics
               = Inl (TypeError cast_message))"
proof (intro conjI allI impI)
  fix r
  show "increasing_spark other (Inr (df, cdk, adk)) dk vk metrics \<noteq> Inr r"
  proof
    assume "increasing_spark other (Inr (df, cdk, adk)) dk vk metrics = Inr r"
    then show False
      using assms by (elim spark_returns) auto
  qed
next
  assume h: "metrics ''table.column_types'' = Some table_columns
          \<and> filter (\<lambda>col. name col = c) table_columns = m # ms \<and> type m = StringType"
  then have "m \<in> set (filter (\<lambda>col. name col = c) table_columns)" by simp
  then have "name m = c" by simp
  then show "increasing_spark other (Inr (df, cdk, adk)) dk vk metrics
               = Inl (TypeError cast_message)"
    using assms h
    by (auto simp: increasing_spark_def Let_def list_ex_iff)
qed

theorem null_raises_witness:
  "map_of [(''column'', PyStr ''c'')] ''column'' = Some (PyStr ''c'')
   \<and> None \<in> set (map (cast_integer Map.empty) [Some ''1'', None, Some ''3''])
   \<and> increasing_spark Map.empty
        (Inr ([''c'' \<mapsto> [Some ''1'', None, Some ''3'']], [(''column'', PyStr ''c'')], []))
        [(''column'', PyStr ''c'')] [(''strictly'', PyBool False)]
        [''table.column_types'' \<mapsto> [\<lparr>name = ''c'', type = StringType\<rparr>]]
     = Inl (TypeError ''Column must be a string-type capable of being cast to int.'')"
  using null_raises
    [where dk = "[(''column'', PyStr ''c'')]" and c = "''c''"
       and df = "[''c'' \<mapsto> [Some ''1'', None, Some ''3'']]"
       and strings = "[Some ''1'', None, Some ''3'']" and other = Map.empty
       and metrics = "[''table.column_types'' \<mapsto> [\<lparr>name = ''c'', type = StringType\<rparr>]]"
       and table_columns = "[\<lparr>name = ''c'', type = StringType\<rparr>]"
       and m = "\<lparr>name = ''c'', type = StringType\<rparr>" and ms = "[]"
       and cdk = "[(''column'', PyStr ''c'')]" and adk = "[]"
       and vk = "[(''strictly'', PyBool False)]"]
  by (simp add: cast_integer_def cast_message_def)

subsection \<open>The keyword \<^verbatim>\<open>strictly\<close> left out\<close>

text \<open>
  Claim C10. When the keyword arguments of the pandas implementation hold no
  \<^verbatim>\<open>strictly\<close>, or hold \<^verbatim>\<open>None\<close> for it, the result is that of
  \<^verbatim>\<open>strictly=False\<close>: every mask that is returned has at place \<open>i\<close> the
  comparison \<open>int(v[i+1]) - int(v[i]) \<ge> 0\<close>, and a mask is returned for every
  column of decimal strings that fit 64 bits. The Spark implementation needs the key
  in its value kwargs: without it no mask is ever returned, and on arguments that give
  a mask as soon as the key is added the call ends in \<^verbatim>\<open>KeyError\<close>. The two share
  no default.
\<close>

theorem strictly_defaults_differ:
  "(map_of kwargs ''strictly'' = None \<or> map_of kwargs ''strictly'' = Some PyNone \<longrightarrow>
      increasing_pandas column kwargs = increasing_pandas column [(''strictly'', PyBool False)]
      \<and> (\<forall>msk. increasing_pandas column kwargs = Inr msk \<longrightarrow>
            length msk = length column - 1
            \<and> (\<forall>i<length msk. msk ! i
                  = (int_of_string (column ! (i + 1)) - int_of_string (column ! i) \<ge> 0)))
      \<and> (list_all decimal_literal column
           \<and> list_all (\<lambda>s. int_of_string s \<le> int64_max) column \<longrightarrow>
          (\<exists>msk. increasing_pandas column kwargs = Inr msk)))
   \<and> (map_of vk ''strictly'' = None \<longrightarrow>
        (\<forall>r. increasing_spark other cd dk vk metrics \<noteq> Inr r)
        \<and> (\<forall>v r. increasing_spark other cd dk ((''strictly'', v) # vk) metrics = Inr r
              \<longrightarrow> increasing_spark other cd dk vk metrics = Inl (KeyError ''strictly'')))"
proof (intro conjI allI impI)
  assume "map_of kwargs ''strictly'' = None \<or> map_of kwargs ''strictly'' = Some PyNone"
  then show "increasing_pandas column kwargs
               = increasing_pandas column [(''strictly'', PyBool False)]"
    by (auto simp: increasing_pandas_def kwargs_get_def)
next
  fix msk
  assume absent: "map_of kwargs ''strictly'' = None \<or> map_of kwargs ''strictly'' = Some PyNone"
    and returned: "increasing_pandas column kwargs = Inr msk"
  have lax: "\<not> truthy (kwargs_get kwargs ''strictly'')"
    using absent by (auto simp: kwargs_get_def)
  have "list_all decimal_literal column \<and> list_all (\<lambda>s. int_of_string s \<le> int64_max) column"
    using returned by (rule pandas_returns)
  then have msk: "msk = map2 (\<lambda>x y. y - x \<ge> 0)
                        (map int_of_string column) (tl (map int_of_string column))"
    using pandas_mask [of column kwargs] returned lax by simp
  show "length msk = length column - 1"
    using msk by simp
  fix i
  assume "i < length msk"
  then show "msk ! i = (int_of_string (column ! (i + 1)) - int_of_string (column ! i) \<ge> 0)"
    using msk by (simp add: nth_tl)
next
  assume "list_all decimal_literal column
           \<and> list_all (\<lambda>s. int_of_string s \<le> int64_max) column"
  then show "\<exists>msk. increasing_pandas column kwargs = Inr msk"
    using pandas_mask [of column kwargs] by simp
next
  fix r
  assume "map_of vk ''strictly'' = None"
  then show "increasing_spark other cd dk vk metrics \<noteq> Inr r"
    by (auto elim: spark_returns)
next
  fix v r
  assume absent: "map_of vk ''strictly'' = None"
    and "increasing_spark other cd dk ((''strictly'', v) # vk) metrics = Inr r"
  then show "increasing_spark other cd dk vk metrics = Inl (KeyError ''strictly'')"
  proof (elim spark_returns)
    fix c tc m ms df cdk adk strings strictly
    assume "map_of dk ''column'' = Some (PyStr c)" "metrics ''table.column_types'' = Some tc"
      "filter (\<lambda>col. name col = c) tc = m # ms" "name m = c" "type m = StringType"
      "cd = Inr (df, cdk, adk)" "df c = Some strings"
      "None \<notin> set (map (cast_integer other) strings)"
    then show ?thesis
      using absent by (auto simp: increasing_spark_def Let_def list_ex_iff)
  qed
qed

theorem strictly_defaults_differ_witness:
  "map_of [] ''strictly'' = (None :: pyval option)
   \<and> list_all decimal_literal [''0'', ''1'', ''1'', ''0'']
   \<and> list_all (\<lambda>s. int_of_string s \<le> int64_max) [''0'', ''1'', ''1'', ''0'']
   \<and> increasing_pandas [''0'', ''1'', ''1'', ''0''] [] = Inr [True, True, False]
   \<and> increasing_pandas [''0'', ''1'', ''1'', ''0''] [(''strictly'', PyBool False)]
     = Inr [True, True, False]
   \<and> increasing_spark Map.empty
        (Inr ([''c'' \<mapsto> [Some ''0'', Some ''1'', Some ''1'', Some ''0'']],
              [(''column'', PyStr ''c'')], []))
        [(''column'', PyStr ''c'')] [(''strictly'', PyBool False)]
        [''table.column_types'' \<mapsto> [\<lparr>name = ''c'', type = StringType\<rparr>]]
     = Inr ([True, True, False], [(''column'', PyStr ''c'')], [])
   \<and> increasing_spark Map.empty
        (Inr ([''c'' \<mapsto> [Some ''0'', Some ''1'', Some ''1'', Some ''0'']],
              [(''column'', PyStr ''c'')], []))
        [(''column'', PyStr ''c'')] []
        [''table.column_types'' \<mapsto> [\<lparr>name = ''c'', type = StringType\<rparr>]]
     = Inl (KeyError ''strictly'')"
  using strictly_defaults_differ
    [where kwargs = "[]" and column = "[''0'', ''1'', ''1'', ''0'']" and vk = "[]"
       and other = Map.empty and dk = "[(''column'', PyStr ''c'')]"
       and cd = "Inr ([''c'' \<mapsto> [Some ''0'', Some ''1'', Some ''1'', Some ''0'']],
                      [(''column'', PyStr ''c'')], [])"
       and metrics = "[''table.column_types'' \<mapsto> [\<lparr>name = ''c'', type = StringType\<rparr>]]"]
  by (simp add: increasing_pandas_def increasing_spark_def isdigit_def digit_char_def
        decimal_char_def decimal_digits_def decimal_literal_def py_int_def
        int_max_str_digits_def int_of_string_def int64_max_def int32_max_def np_diff_def
        wrap64_def wrap32_def kwargs_get_def cast_integer_def lag_def minus32_def)

section \<open>Dependencies and verdict\<close>

subsection \<open>The domain of the column types\<close>

lemma map_of_without:
  "map_of (filter (\<lambda>(k, v). k \<noteq> c) kvs) = (map_of kvs)(c := None)"
  by (induction kvs) (auto simp: fun_eq_iff)

lemma keys_without:
  "map fst (filter (\<lambda>(k, v). k \<noteq> c) kvs) = filter (\<lambda>k. k \<noteq> c) (map fst kvs)"
  by (induction kvs) auto

text \<open>
  Claim C5. Whatever the metric configuration is, the dependency declared under
  \<^verbatim>\<open>table.column_types\<close> is a configuration of that name whose domain kwargs are
  those of the metric with the key \<^verbatim>\<open>column\<close> removed and nothing else: every other
  key is kept, in order and with its value. Its value kwargs are
  \<^verbatim>\<open>{"include_nested": True}\<close>.
\<close>

theorem column_types_dependency:
  "\<exists>cfg. get_evaluation_dependencies super_dependencies metric ''table.column_types'' = Some cfg
     \<and> metric_name cfg = ''table.column_types''
     \<and> map_of (metric_domain_kwargs cfg) = (map_of (metric_domain_kwargs metric))(''column'' := None)
     \<and> map fst (metric_domain_kwargs cfg)
         = filter (\<lambda>k. k \<noteq> ''column'') (map fst (metric_domain_kwargs metric))
     \<and> metric_value_kwargs cfg = [(''include_nested'', PyBool True)]"
  by (simp add: get_evaluation_dependencies_def map_of_without keys_without)

theorem column_types_dependency_witness:
  "get_evaluation_dependencies Map.empty
     \<lparr>metric_name = ''column_values.string_integers.increasing.map'',
      metric_domain_kwargs = [(''batch_id'', PyStr ''b1''), (''column'', PyStr ''a''),
                              (''row_condition'', PyStr ''x > 1'')],
      metric_value_kwargs = [(''strictly'', PyBool True)]\<rparr> ''table.column_types''
   = Some \<lparr>metric_name = ''table.column_types'',
           metric_domain_kwargs = [(''batch_id'', PyStr ''b1''), (''row_condition'', PyStr ''x > 1'')],
           metric_value_kwargs = [(''include_nested'', PyBool True)]\<rparr>"
  using column_types_dependency [of Map.empty
     "\<lparr>metric_name = ''column_values.string_integers.increasing.map'',
      metric_domain_kwargs = [(''batch_id'', PyStr ''b1''), (''column'', PyStr ''a''),
                              (''row_condition'', PyStr ''x > 1'')],
      metric_value_kwargs = [(''strictly'', PyBool True)]\<rparr>"]
  by (simp add: get_evaluation_dependencies_def)

subsection \<open>Success and observed value\<close>

text \<open>
  Claim C4. On the mask stored for the map metric, \<^verbatim>\<open>_validate\<close> returns a result
  whose success holds exactly when every element of the mask is true, hence for the
  empty mask, which is the mask of the pandas implementation on a column of no or one
  row. Its observed value is not the mask but the distinct values of the mask, in
  ascending order, with the number of occurrences of each.
\<close>

theorem verdict_all_of_mask:
  assumes "metrics (''column_values.string_integers.increasing.'' @ map_suffix)
             = Some (msk, cdk, adk)"
  shows "\<exists>r. validate map_suffix metrics = Inr r
           \<and> (success r \<longleftrightarrow> (\<forall>b \<in> set msk. b))
           \<and> (msk = [] \<longrightarrow> success r)
           \<and> (\<forall>column kwargs. length column \<le> 1 \<and> increasing_pandas column kwargs = Inr msk
                 \<longrightarrow> success r)
           \<and> sorted (fst (observed_value r)) \<and> distinct (fst (observed_value r))
           \<and> set (fst (observed_value r)) = set msk
           \<and> snd (observed_value r) = map (count_list msk) (fst (observed_value r))"
proof -
  let ?r = "\<lparr>observed_value = np_unique msk, success = list_all (\<lambda>b. b) msk\<rparr>"
  have returned: "validate map_suffix metrics = Inr ?r"
    using assms by (simp add: validate_def)
  have verdict: "(success ?r \<longleftrightarrow> (\<forall>b \<in> set msk. b)) \<and> (msk = [] \<longrightarrow> success ?r)"
    by (simp add: list_all_iff)
  have short: "\<forall>column kwargs. length column \<le> 1 \<and> increasing_pandas column kwargs = Inr msk
                 \<longrightarrow> success ?r"
    using pandas_short by fastforce
  have summary: "sorted (fst (observed_value ?r)) \<and> distinct (fst (observed_value ?r))
           \<and> set (fst (observed_value ?r)) = set msk
           \<and> snd (observed_value ?r) = map (count_list msk) (fst (observed_value ?r))"
    by (simp add: np_unique_def Let_def)
  show ?thesis
    using returned verdict short summary by blast
qed

theorem verdict_all_of_mask_witness:
  "[''column_values.string_integers.increasing.map'' \<mapsto> ([True, False, True], [], [])]
      (''column_values.string_integers.increasing.'' @ ''map'')
     = Some ([True, False, True], [], [])
   \<and> validate ''map''
        [''column_values.string_integers.increasing.map'' \<mapsto> ([True, False, True], [], [])]
     = Inr \<lparr>observed_value = ([False, True], [1, 2]), success = False\<rparr>
   \<and> increasing_pandas [''5''] [(''strictly'', PyBool True)] = Inr []
   \<and> validate ''map'' [''column_values.string_integers.increasing.map'' \<mapsto> ([], [], [])]
     = Inr \<lparr>observed_value = ([], []), success = True\<rparr>"
  using verdict_all_of_mask
    [of "[''column_values.string_integers.increasing.map'' \<mapsto> ([True, False, True], [], [])]"
        "''map''" "[True, False, True]" "[]" "[]"]
    verdict_all_of_mask
    [of "[''column_values.string_integers.increasing.map'' \<mapsto> ([], [], [])]"
        "''map''" "[]" "[]" "[]"]
  by (simp add: validate_def np_unique_def increasing_pandas_def isdigit_def digit_char_def decimal_char_def decimal_digits_def decimal_literal_def
        py_int_def int_max_str_digits_def int_of_string_def
        int64_max_def np_diff_def kwargs_get_def)

end
